theory Spec2Isabelle
  imports Main
begin

section \<open>JavaScript values and errors\<close>

text \<open>
  A JavaScript argument of documented type \<open>'a\<close> may also be \<open>undefined\<close> (an argument
  that was not passed) or \<open>null\<close>. The type \<open>'c\<close> below stands for the
  \<open>Strophe.Connection\<close> objects, which the class \<open>SASLMechanism\<close> only stores and
  passes on.
\<close>

datatype 'a jsval = Undefined | Null | Val 'a

text \<open>\<open>throw new Error(msg)\<close>: the thrown value carries its message.\<close>

datatype error = Error string

section \<open>The class \<open>SASLMechanism\<close>\<close>

text \<open>
  The fields assigned by the constructor are \<open>mechname\<close>, \<open>isClientFirst\<close> and
  \<open>priority\<close>. The property \<open>_connection\<close> (here \<open>connection\<close>, since a name cannot start
  with an underscore) is not assigned by the constructor: it is \<open>None\<close> while the
  object has no such property, and \<open>Some v\<close> once a method has assigned \<open>v\<close> to it.
  The record is extensible: an object of a subclass is a value of
  \<open>('c, 'z) SASLMechanism_scheme\<close> whose extension \<open>'z\<close> holds the subclass's own
  fields. The fields have their documented types: String, Boolean and Number, the
  documented priorities being whole numbers.
\<close>

record 'c SASLMechanism =
  mechname :: string
  isClientFirst :: bool
  priority :: int
  connection :: "'c jsval option"

text \<open>
  \<open>constructor(name, isClientFirst, priority)\<close>: three assignments, in the source's
  order.
\<close>

definition constructor :: "string \<Rightarrow> bool \<Rightarrow> int \<Rightarrow> 'c SASLMechanism" where
  "constructor name cf p =
     \<lparr>mechname = name, isClientFirst = cf, priority = p, connection = None\<rparr>"

text \<open>
  A method is a function from the receiver \<open>this\<close> (and the arguments) to the outcome of
  the call and the receiver after it. The outcome is \<open>Inl e\<close> when the call throws
  \<open>e\<close>, and \<open>Inr v\<close> when it returns \<open>v\<close> (\<open>()\<close> for a method that returns nothing).
\<close>

text \<open>\<open>test() { return true; }\<close>: the connection a caller passes is ignored.\<close>

definition test ::
  "('c, 'z) SASLMechanism_scheme \<Rightarrow> 'c jsval \<Rightarrow> (error + bool) \<times> ('c, 'z) SASLMechanism_scheme"
  where
  "test this conn = (Inr True, this)"

text \<open>\<open>onStart(connection) { this._connection = connection; }\<close>\<close>

definition onStart ::
  "('c, 'z) SASLMechanism_scheme \<Rightarrow> 'c jsval \<Rightarrow> (error + unit) \<times> ('c, 'z) SASLMechanism_scheme"
  where
  "onStart this conn = (Inr (), this\<lparr>connection := Some conn\<rparr>)"

text \<open>
  \<open>onChallenge(connection, challenge) { throw new Error('You should implement challenge
  handling!'); }\<close>
\<close>

definition onChallenge ::
  "('c, 'z) SASLMechanism_scheme \<Rightarrow> 'c jsval \<Rightarrow> string jsval
     \<Rightarrow> (error + string) \<times> ('c, 'z) SASLMechanism_scheme"
  where
  "onChallenge this conn challenge =
     (Inl (Error ''You should implement challenge handling!''), this)"

text \<open>
  \<open>clientChallenge(connection)\<close> checks \<open>this.isClientFirst\<close> and then calls
  \<open>this.onChallenge(connection)\<close>, with one argument, so that the challenge is
  \<open>undefined\<close>. The call is dispatched on the receiver: the first parameter \<open>oc\<close> is
  the \<open>onChallenge\<close> method the receiver's class has, which is \<open>onChallenge\<close> above
  for the base class and the overriding method for a subclass.
\<close>

definition clientChallenge ::
  "(('c, 'z) SASLMechanism_scheme \<Rightarrow> 'c jsval \<Rightarrow> string jsval
      \<Rightarrow> (error + 'r) \<times> ('c, 'z) SASLMechanism_scheme)
     \<Rightarrow> ('c, 'z) SASLMechanism_scheme \<Rightarrow> 'c jsval
     \<Rightarrow> (error + 'r) \<times> ('c, 'z) SASLMechanism_scheme"
  where
  "clientChallenge oc this conn =
     (if \<not> isClientFirst this
      then (Inl (Error ''clientChallenge should not be called if isClientFirst is false!''), this)
      else oc this conn Undefined)"

text \<open>\<open>onFailure() { this._connection = null; }\<close>\<close>

definition onFailure ::
  "('c, 'z) SASLMechanism_scheme \<Rightarrow> (error + unit) \<times> ('c, 'z) SASLMechanism_scheme"
  where
  "onFailure this = (Inr (), this\<lparr>connection := Some Null\<rparr>)"

text \<open>\<open>onSuccess() { this._connection = null; }\<close>\<close>

definition onSuccess ::
  "('c, 'z) SASLMechanism_scheme \<Rightarrow> (error + unit) \<times> ('c, 'z) SASLMechanism_scheme"
  where
  "onSuccess this = (Inr (), this\<lparr>connection := Some Null\<rparr>)"

text \<open>
  The assignment \<open>mechanism.priority = p\<close> by which user code overrides a priority (the
  example in the documentation of the field: \<open>Strophe.SASLPlain.priority =
  Strophe.SASLSHA1.priority\<close>).
\<close>

definition override_priority ::
  "('c, 'z) SASLMechanism_scheme \<Rightarrow> int \<Rightarrow> ('c, 'z) SASLMechanism_scheme"
  where
  "override_priority this p = this\<lparr>priority := p\<rparr>"

section \<open>The concrete variants\<close>

text \<open>
  Modelled from the spec: the nine concrete mechanisms (\<open>sasl-anon.js\<close>,
  \<open>sasl-plain.js\<close>, \<open>sasl-sha1.js\<close> and the others that \<open>core.js\<close> imports) are not
  among the source files. Their names and default priorities are those of section
  4.2 of the spec and of the table in the class documentation of \<open>SASLMechanism\<close>.
\<close>

datatype variant =
  SCRAM_SHA_512 | SCRAM_SHA_384 | SCRAM_SHA_256 | SCRAM_SHA_1 | PLAIN
  | OAUTHBEARER | X_OAUTH2 | ANONYMOUS | EXTERNAL

text \<open>Modelled from the spec: the SASL name of each variant.\<close>

fun variant_name :: "variant \<Rightarrow> string" where
  "variant_name SCRAM_SHA_512 = ''SCRAM-SHA-512''"
| "variant_name SCRAM_SHA_384 = ''SCRAM-SHA-384''"
| "variant_name SCRAM_SHA_256 = ''SCRAM-SHA-256''"
| "variant_name SCRAM_SHA_1 = ''SCRAM-SHA-1''"
| "variant_name PLAIN = ''PLAIN''"
| "variant_name OAUTHBEARER = ''OAUTHBEARER''"
| "variant_name X_OAUTH2 = ''X-OAUTH2''"
| "variant_name ANONYMOUS = ''ANONYMOUS''"
| "variant_name EXTERNAL = ''EXTERNAL''"

text \<open>
  Modelled from the spec: the default priority of each variant, from the table in
  the class documentation.
\<close>

fun default_priority :: "variant \<Rightarrow> int" where
  "default_priority SCRAM_SHA_512 = 72"
| "default_priority SCRAM_SHA_384 = 71"
| "default_priority SCRAM_SHA_256 = 70"
| "default_priority SCRAM_SHA_1 = 60"
| "default_priority PLAIN = 50"
| "default_priority OAUTHBEARER = 40"
| "default_priority X_OAUTH2 = 30"
| "default_priority ANONYMOUS = 20"
| "default_priority EXTERNAL = 10"

text \<open>
  Modelled from the spec: the variants in the order of preference that section 4.2
  gives, the strongest first.
\<close>

definition variants_by_preference :: "variant list" where
  "variants_by_preference =
     [SCRAM_SHA_512, SCRAM_SHA_384, SCRAM_SHA_256, SCRAM_SHA_1, PLAIN,
      OAUTHBEARER, X_OAUTH2, ANONYMOUS, EXTERNAL]"

section \<open>The registry and the selector\<close>

text \<open>
  Modelled from the spec: the registry and the selection of a mechanism belong to the
  connection (\<open>connection.js\<close>), which is not among the source files. Section 4.3 of
  the spec gives the algorithm, section 3 the registry.

  A registered template is a mechanism together with its \<open>test\<close> method, which the
  spec requires to be a pure check of the connection and which the application may
  replace. The registry lists the templates in the order of their registration; the
  key of a template is its \<open>mechname\<close>.
\<close>

record 'c registered =
  template :: "'c SASLMechanism"
  test_of :: "'c jsval \<Rightarrow> bool"

type_synonym 'c registry = "'c registered list"

text \<open>
  Modelled from the spec: a template that keeps the default \<open>test\<close>, which is the
  method \<open>test\<close> of the base class above.
\<close>

definition with_default_test :: "'c SASLMechanism \<Rightarrow> 'c registered" where
  "with_default_test m = \<lparr>template = m, test_of = (\<lambda>conn. fst (test m conn) = Inr True)\<rparr>"

text \<open>Modelled from the spec: the one condition with which the selection fails.\<close>

datatype selection_error = NoCompatibleMechanism

text \<open>
  Modelled from the spec: the selector of section 4.3, in its three steps. Step 1
  intersects the names the server advertised with the keys of the registry.
\<close>

definition offered :: "'c registry \<Rightarrow> string list \<Rightarrow> 'c registered list" where
  "offered reg advertised = filter (\<lambda>e. mechname (template e) \<in> set advertised) reg"

text \<open>
  Modelled from the spec: step 2 discards the templates whose \<open>test(connection)\<close> is
  false.
\<close>

definition applicable :: "'c registered list \<Rightarrow> 'c jsval \<Rightarrow> 'c registered list" where
  "applicable es conn = filter (\<lambda>e. test_of e conn) es"

text \<open>
  Modelled from the spec: step 3 takes the highest priority of the remainder. A later
  template replaces the best one so far only when its priority is strictly higher,
  so that ties go to the template that was registered first (the stable order the
  spec names).
\<close>

fun highest :: "'c registered \<Rightarrow> 'c registered list \<Rightarrow> 'c registered" where
  "highest b [] = b"
| "highest b (e # es) =
     (if priority (template b) < priority (template e) then highest e es else highest b es)"

text \<open>
  Modelled from the spec: the selection proper. An empty remainder is the condition
  \<open>NoCompatibleMechanism\<close>, returned as a value.
\<close>

definition select ::
  "'c registry \<Rightarrow> string list \<Rightarrow> 'c jsval \<Rightarrow> selection_error + 'c registered" where
  "select reg advertised conn =
     (case applicable (offered reg advertised) conn of
        [] \<Rightarrow> Inl NoCompatibleMechanism
      | e # es \<Rightarrow> Inr (highest e es))"

text \<open>
  Modelled from the spec: a template takes part in the selection when its name is
  advertised and its \<open>test\<close> holds of the connection.
\<close>

definition compatible :: "string list \<Rightarrow> 'c jsval \<Rightarrow> 'c registered \<Rightarrow> bool" where
  "compatible advertised conn e \<longleftrightarrow> mechname (template e) \<in> set advertised \<and> test_of e conn"

text \<open>
  A registry and a server's offer to run the selector on. The strongest mechanism
  is registered with a \<open>test\<close> that the application replaced to disable it, the
  priority of SCRAM-SHA-1 was overridden to that of PLAIN, which was registered
  before it, and the server does not advertise EXTERNAL.
\<close>

definition example_plain :: "nat registered" where
  "example_plain = with_default_test (constructor ''PLAIN'' False 50)"

definition example_registry :: "nat registry" where
  "example_registry =
     [with_default_test (constructor ''ANONYMOUS'' False 20),
      example_plain,
      with_default_test (override_priority (constructor ''SCRAM-SHA-1'' True 60) 50),
      \<lparr>template = constructor ''SCRAM-SHA-512'' True 72, test_of = (\<lambda>conn. False)\<rparr>,
      with_default_test (constructor ''EXTERNAL'' True 10)]"

definition example_offer :: "string list" where
  "example_offer = [''SCRAM-SHA-512'', ''SCRAM-SHA-1'', ''PLAIN'', ''ANONYMOUS'']"

section \<open>Properties of the base class\<close>

text \<open>
  C1: on a mechanism whose \<open>isClientFirst\<close> is false, \<open>clientChallenge\<close> throws its usage
  error for every connection. Whatever \<open>onChallenge\<close> method the receiver has, the
  outcome is this error and the receiver is as before: the method is not invoked
  and nothing else happens.
\<close>

theorem clientChallenge_rejects_server_first:
  "\<not> isClientFirst this \<Longrightarrow>
   clientChallenge oc this conn =
     (Inl (Error ''clientChallenge should not be called if isClientFirst is false!''), this)"
  by (simp add: clientChallenge_def)

theorem clientChallenge_rejects_server_first_witness:
  "\<not> isClientFirst (constructor ''ANONYMOUS'' False 20 :: nat SASLMechanism) \<and>
   clientChallenge (\<lambda>this conn challenge. (Inr ''response'', this\<lparr>priority := 0\<rparr>))
       (constructor ''ANONYMOUS'' False 20 :: nat SASLMechanism) (Val 7) =
     (Inl (Error ''clientChallenge should not be called if isClientFirst is false!''),
      constructor ''ANONYMOUS'' False 20)"
proof -
  have h: "\<not> isClientFirst (constructor ''ANONYMOUS'' False 20 :: nat SASLMechanism)"
    by (simp add: constructor_def)
  show ?thesis
    using h clientChallenge_rejects_server_first [OF h] by simp
qed

text \<open>
  C3: \<open>onFailure\<close> and \<open>onSuccess\<close> never throw and set \<open>_connection\<close> to \<open>null\<close>, from
  every state of the mechanism, also one in which \<open>onStart\<close> was never called and the
  property does not exist yet. A second call to either of them, after either of
  them, returns normally and leaves the state as the first call left it.
\<close>

theorem release_idempotent:
  "fst (onFailure this) = Inr () \<and> connection (snd (onFailure this)) = Some Null \<and>
   fst (onSuccess this) = Inr () \<and> connection (snd (onSuccess this)) = Some Null \<and>
   fst (onFailure (constructor name cf p :: 'c SASLMechanism)) = Inr () \<and>
   connection (snd (onFailure (constructor name cf p :: 'c SASLMechanism))) = Some Null \<and>
   fst (onSuccess (constructor name cf p :: 'c SASLMechanism)) = Inr () \<and>
   connection (snd (onSuccess (constructor name cf p :: 'c SASLMechanism))) = Some Null \<and>
   onFailure (snd (onFailure this)) = (Inr (), snd (onFailure this)) \<and>
   onSuccess (snd (onFailure this)) = (Inr (), snd (onFailure this)) \<and>
   onFailure (snd (onSuccess this)) = (Inr (), snd (onSuccess this)) \<and>
   onSuccess (snd (onSuccess this)) = (Inr (), snd (onSuccess this))"
  by (simp add: onFailure_def onSuccess_def)

text \<open>
  C4: on a mechanism whose \<open>isClientFirst\<close> is true, \<open>clientChallenge(connection)\<close> is the
  call \<open>onChallenge(connection, undefined)\<close> of the receiver's own \<open>onChallenge\<close>
  method: the same returned value or thrown error, and the same state afterwards.
  On every mechanism, client-first or not and bound or not, \<open>onSuccess\<close> has the
  outcome and the effect of \<open>onFailure\<close>: it returns normally and the state after it
  is the state before it with \<open>_connection\<close> set to \<open>null\<close>.
\<close>

theorem clientChallenge_is_onChallenge:
  "(isClientFirst this \<longrightarrow> clientChallenge oc this conn = oc this conn Undefined) \<and>
   onSuccess that = onFailure that \<and>
   onSuccess that = (Inr (), that\<lparr>connection := Some Null\<rparr>)"
  by (simp add: clientChallenge_def onSuccess_def onFailure_def)

theorem clientChallenge_is_onChallenge_witness:
  "isClientFirst (constructor ''PLAIN'' True 50 :: nat SASLMechanism) \<and>
   clientChallenge onChallenge (constructor ''PLAIN'' True 50 :: nat SASLMechanism) (Val 7) =
     (Inl (Error ''You should implement challenge handling!''), constructor ''PLAIN'' True 50) \<and>
   \<not> isClientFirst (snd (onStart (constructor ''ANONYMOUS'' False 20 :: nat SASLMechanism) (Val 7))) \<and>
   onSuccess (snd (onStart (constructor ''ANONYMOUS'' False 20 :: nat SASLMechanism) (Val 7))) =
     onFailure (snd (onStart (constructor ''ANONYMOUS'' False 20) (Val 7))) \<and>
   onSuccess (snd (onStart (constructor ''ANONYMOUS'' False 20 :: nat SASLMechanism) (Val 7))) =
     (Inr (), \<lparr>mechname = ''ANONYMOUS'', isClientFirst = False, priority = 20,
               connection = Some Null\<rparr>)"
proof -
  have h: "isClientFirst (constructor ''PLAIN'' True 50 :: nat SASLMechanism)"
    by (simp add: constructor_def)
  have b: "snd (onStart (constructor ''ANONYMOUS'' False 20 :: nat SASLMechanism) (Val 7)) =
      \<lparr>mechname = ''ANONYMOUS'', isClientFirst = False, priority = 20,
        connection = Some (Val 7)\<rparr>"
    by (simp add: onStart_def constructor_def)
  note t = clientChallenge_is_onChallenge
    [where this = "constructor ''PLAIN'' True 50 :: nat SASLMechanism" and oc = onChallenge
       and conn = "Val 7"
       and that = "snd (onStart (constructor ''ANONYMOUS'' False 20 :: nat SASLMechanism) (Val 7))"]
  from t h have c: "clientChallenge onChallenge
      (constructor ''PLAIN'' True 50 :: nat SASLMechanism) (Val 7) =
      onChallenge (constructor ''PLAIN'' True 50) (Val 7) Undefined"
    by blast
  from t have s: "onSuccess (snd (onStart (constructor ''ANONYMOUS'' False 20 :: nat SASLMechanism) (Val 7))) =
      onFailure (snd (onStart (constructor ''ANONYMOUS'' False 20) (Val 7)))"
    by blast
  from t have e: "onSuccess (snd (onStart (constructor ''ANONYMOUS'' False 20 :: nat SASLMechanism) (Val 7))) =
      (Inr (), (snd (onStart (constructor ''ANONYMOUS'' False 20) (Val 7)))\<lparr>connection := Some Null\<rparr>)"
    by blast
  have c': "onChallenge (constructor ''PLAIN'' True 50 :: nat SASLMechanism) (Val 7) Undefined =
      (Inl (Error ''You should implement challenge handling!''), constructor ''PLAIN'' True 50)"
    by (simp add: onChallenge_def)
  have e': "(snd (onStart (constructor ''ANONYMOUS'' False 20 :: nat SASLMechanism) (Val 7)))
        \<lparr>connection := Some Null\<rparr> =
      \<lparr>mechname = ''ANONYMOUS'', isClientFirst = False, priority = 20, connection = Some Null\<rparr>"
    by (simp add: b)
  have n: "\<not> isClientFirst (snd (onStart (constructor ''ANONYMOUS'' False 20 :: nat SASLMechanism) (Val 7)))"
    by (simp add: b)
  show ?thesis
    using h n s c [unfolded c'] e [unfolded e'] by (intro conjI)
qed

text \<open>
  C5: the \<open>test\<close> of the base class returns \<open>true\<close> for every connection and leaves the
  mechanism as it was, so it can be called again, on the state the first call left,
  with the same outcome.
\<close>

theorem test_always_applicable:
  "test this conn = (Inr True, this) \<and>
   test (snd (test this conn)) conn' = (Inr True, this)"
  by (simp add: test_def)

text \<open>
  C6: the \<open>onChallenge\<close> of the base class throws for every connection and every
  challenge; it never returns a response, and it leaves the mechanism as it was.
\<close>

theorem onChallenge_unimplemented:
  "onChallenge this conn challenge =
     (Inl (Error ''You should implement challenge handling!''), this) \<and>
   fst (onChallenge this conn challenge) \<noteq> Inr response"
  by (simp add: onChallenge_def)

text \<open>
  C8: a second \<open>onStart\<close> on the same mechanism returns normally and stores the new
  connection in place of the one the first call stored: the state is the one a
  single \<open>onStart\<close> with the second connection gives.
\<close>

theorem onStart_rebinds:
  "fst (onStart (snd (onStart this conn1)) conn2) = Inr () \<and>
   connection (snd (onStart this conn1)) = Some conn1 \<and>
   connection (snd (onStart (snd (onStart this conn1)) conn2)) = Some conn2 \<and>
   onStart (snd (onStart this conn1)) conn2 = onStart this conn2"
  by (simp add: onStart_def)

text \<open>
  C9: \<open>onStart\<close>, \<open>onFailure\<close> and \<open>onSuccess\<close> change no field but \<open>_connection\<close>: the state
  after each call is the state before it with \<open>_connection\<close> replaced, so \<open>mechname\<close>,
  \<open>isClientFirst\<close> and \<open>priority\<close> are those the constructor set.
\<close>

theorem lifecycle_frame:
  "snd (onStart this conn) = this\<lparr>connection := connection (snd (onStart this conn))\<rparr> \<and>
   snd (onFailure this) = this\<lparr>connection := connection (snd (onFailure this))\<rparr> \<and>
   snd (onSuccess this) = this\<lparr>connection := connection (snd (onSuccess this))\<rparr> \<and>
   mechname (snd (onStart this conn)) = mechname this \<and>
   isClientFirst (snd (onStart this conn)) = isClientFirst this \<and>
   priority (snd (onStart this conn)) = priority this \<and>
   mechname (snd (onFailure this)) = mechname this \<and>
   isClientFirst (snd (onFailure this)) = isClientFirst this \<and>
   priority (snd (onFailure this)) = priority this \<and>
   mechname (snd (onSuccess this)) = mechname this \<and>
   isClientFirst (snd (onSuccess this)) = isClientFirst this \<and>
   priority (snd (onSuccess this)) = priority this \<and>
   mechname (constructor name cf p :: 'c SASLMechanism) = name \<and>
   isClientFirst (constructor name cf p :: 'c SASLMechanism) = cf \<and>
   priority (constructor name cf p :: 'c SASLMechanism) = p"
  by (simp add: onStart_def onFailure_def onSuccess_def constructor_def)

text \<open>
  C10: the outcome of the \<open>test\<close> of the base class is the same for any two
  connections, \<open>null\<close> and \<open>undefined\<close> among them.
\<close>

theorem test_ignores_connection:
  "test this conn1 = test this conn2 \<and>
   fst (test this Null) = fst (test this conn1) \<and>
   fst (test this Undefined) = fst (test this conn1)"
  by (simp add: test_def)

section \<open>Properties of the selector\<close>

text \<open>
  The best of a list splits it: every template before it has a strictly lower
  priority, and no template after it has a higher one.
\<close>

lemma highest_split:
  "\<exists>pre post. b # es = pre @ highest b es # post \<and>
     (\<forall>e \<in> set pre. priority (template e) < priority (template (highest b es))) \<and>
     (\<forall>e \<in> set post. priority (template e) \<le> priority (template (highest b es)))"
proof (induction es arbitrary: b)
  case Nil
  show ?case by (rule exI [of _ "[]"]) simp
next
  case (Cons e es)
  show ?case
  proof (cases "priority (template b) < priority (template e)")
    case True
    from Cons.IH [of e] obtain pre post where
      d: "e # es = pre @ highest e es # post"
      and lo: "\<forall>x \<in> set pre. priority (template x) < priority (template (highest e es))"
      and hi: "\<forall>x \<in> set post. priority (template x) \<le> priority (template (highest e es))"
      by blast
    have "priority (template e) \<le> priority (template (highest e es))"
    proof (cases pre)
      case Nil
      with d show ?thesis by (metis append_Nil list.inject order_refl)
    next
      case (Cons y ys)
      with d have "e \<in> set pre" by simp
      with lo show ?thesis by fastforce
    qed
    with True have b: "priority (template b) < priority (template (highest e es))" by simp
    have "b # e # es = (b # pre) @ highest e es # post" using d by simp
    moreover have "\<forall>x \<in> set (b # pre). priority (template x) < priority (template (highest e es))"
      using b lo by simp
    ultimately show ?thesis using True hi
      by (metis highest.simps(2))
  next
    case False
    from Cons.IH [of b] obtain pre post where
      d: "b # es = pre @ highest b es # post"
      and lo: "\<forall>x \<in> set pre. priority (template x) < priority (template (highest b es))"
      and hi: "\<forall>x \<in> set post. priority (template x) \<le> priority (template (highest b es))"
      by blast
    show ?thesis
    proof (cases pre)
      case Nil
      with d have hb: "highest b es = b" and es: "es = post"
        by (metis append_Nil list.inject)+
      have "b # e # es = [] @ b # (e # post)" using es by simp
      moreover have "\<forall>x \<in> set (e # post). priority (template x) \<le> priority (template b)"
        using False hi hb by auto
      ultimately show ?thesis using False hb
        by (metis empty_iff empty_set highest.simps(2))
    next
      case (Cons y ys)
      with d have y: "y = b" and es: "es = ys @ highest b es # post"
        by (metis append_Cons list.inject)+
      have bl: "priority (template b) < priority (template (highest b es))"
        using lo Cons y by simp
      have "b # e # es = (b # e # ys) @ highest b es # post" using es by simp
      moreover have "\<forall>x \<in> set (b # e # ys). priority (template x) < priority (template (highest b es))"
        using bl False lo Cons by auto
      ultimately show ?thesis using False hi
        by (metis highest.simps(2))
    qed
  qed
qed

lemma filter_split:
  "filter P xs = pre @ m # post \<Longrightarrow>
   \<exists>us vs. xs = us @ m # vs \<and> P m \<and> filter P us = pre \<and> filter P vs = post"
proof (induction xs arbitrary: pre)
  case Nil
  then show ?case by simp
next
  case (Cons x xs)
  show ?case
  proof (cases "P x")
    case False
    with Cons.prems have "filter P xs = pre @ m # post" by simp
    from Cons.IH [OF this] obtain us vs where
      "xs = us @ m # vs" "P m" "filter P us = pre" "filter P vs = post" by blast
    with False have "x # xs = (x # us) @ m # vs \<and> P m \<and> filter P (x # us) = pre \<and> filter P vs = post"
      by simp
    then show ?thesis by blast
  next
    case True
    with Cons.prems have eq: "x # filter P xs = pre @ m # post" by simp
    show ?thesis
    proof (cases pre)
      case Nil
      with eq have "x = m" "filter P xs = post" by simp_all
      with True Nil have "x # xs = [] @ m # xs \<and> P m \<and> filter P [] = pre \<and> filter P xs = post"
        by simp
      then show ?thesis by blast
    next
      case (Cons y ys)
      with eq have y: "y = x" and "filter P xs = ys @ m # post" by simp_all
      from Cons.IH [OF this(2)] obtain us vs where
        "xs = us @ m # vs" "P m" "filter P us = ys" "filter P vs = post" by blast
      with True Cons y have
        "x # xs = (x # us) @ m # vs \<and> P m \<and> filter P (x # us) = pre \<and> filter P vs = post"
        by simp
      then show ?thesis by blast
    qed
  qed
qed

lemma candidates_filter:
  "applicable (offered reg adv) conn = filter (compatible adv conn) reg"
  by (induction reg) (simp_all add: applicable_def offered_def compatible_def)

lemma select_none_iff:
  "select reg adv conn = Inl NoCompatibleMechanism \<longleftrightarrow>
   (\<forall>e \<in> set reg. \<not> compatible adv conn e)"
proof -
  have "select reg adv conn = Inl NoCompatibleMechanism \<longleftrightarrow>
        filter (compatible adv conn) reg = []"
    by (simp add: select_def candidates_filter split: list.splits)
  then show ?thesis by (simp add: filter_empty_conv)
qed

lemma select_some:
  assumes "select reg adv conn = Inr m"
  shows "\<exists>before after. reg = before @ m # after \<and> compatible adv conn m \<and>
           (\<forall>e \<in> set before. compatible adv conn e \<longrightarrow> priority (template e) < priority (template m)) \<and>
           (\<forall>e \<in> set after. compatible adv conn e \<longrightarrow> priority (template e) \<le> priority (template m))"
proof -
  from assms obtain b es where
    c: "filter (compatible adv conn) reg = b # es" and m: "m = highest b es"
    by (auto simp: select_def candidates_filter split: list.splits)
  from highest_split [of b es] m obtain pre post where
    d: "b # es = pre @ m # post"
    and lo: "\<forall>e \<in> set pre. priority (template e) < priority (template m)"
    and hi: "\<forall>e \<in> set post. priority (template e) \<le> priority (template m)"
    by blast
  from c d have "filter (compatible adv conn) reg = pre @ m # post" by simp
  from filter_split [OF this] obtain us vs where
    r: "reg = us @ m # vs" and pm: "compatible adv conn m"
    and us: "filter (compatible adv conn) us = pre"
    and vs: "filter (compatible adv conn) vs = post"
    by blast
  have "\<forall>e \<in> set us. compatible adv conn e \<longrightarrow> priority (template e) < priority (template m)"
    using lo us by auto
  moreover have "\<forall>e \<in> set vs. compatible adv conn e \<longrightarrow> priority (template e) \<le> priority (template m)"
    using hi vs by auto
  ultimately show ?thesis using r pm by blast
qed

lemma select_strictly_highest:
  assumes m: "m \<in> set reg" and c: "compatible adv conn m"
    and top: "\<forall>e \<in> set reg. compatible adv conn e \<longrightarrow> e \<noteq> m \<longrightarrow>
               priority (template e) < priority (template m)"
  shows "select reg adv conn = Inr m"
proof -
  from m c have "select reg adv conn \<noteq> Inl NoCompatibleMechanism"
    using select_none_iff [of reg adv conn] by blast
  then obtain m' where s: "select reg adv conn = Inr m'"
    by (cases "select reg adv conn") (auto intro: selection_error.exhaust)
  from select_some [OF s] obtain before after where
    r: "reg = before @ m' # after" and c': "compatible adv conn m'"
    and lo: "\<forall>e \<in> set before. compatible adv conn e \<longrightarrow>
               priority (template e) < priority (template m')"
    and hi: "\<forall>e \<in> set after. compatible adv conn e \<longrightarrow>
               priority (template e) \<le> priority (template m')"
    by blast
  have le: "priority (template m) \<le> priority (template m')"
    using m c r lo hi by fastforce
  have "m' = m"
  proof (rule ccontr)
    assume n: "m' \<noteq> m"
    from r have "m' \<in> set reg" by simp
    with top c' n have "priority (template m') < priority (template m)" by blast
    with le show False by simp
  qed
  with s show ?thesis by simp
qed

text \<open>
  C2: the selection fails with \<open>NoCompatibleMechanism\<close>, as a returned value, exactly
  when no registered template is both advertised by the server and passes its
  \<open>test\<close>; otherwise it returns a template. The template it returns is registered,
  advertised and passes its \<open>test\<close>; no template that is advertised and passes its
  \<open>test\<close> has a higher priority, and those of the same priority were all registered
  after it. A template whose priority is strictly the highest among them is the one
  returned.
\<close>

theorem select_highest_priority:
  "(select reg adv conn = Inl NoCompatibleMechanism \<longleftrightarrow>
      (\<forall>e \<in> set reg. \<not> (mechname (template e) \<in> set adv \<and> test_of e conn))) \<and>
   (select reg adv conn = Inl NoCompatibleMechanism \<or> (\<exists>m. select reg adv conn = Inr m)) \<and>
   (\<forall>m. select reg adv conn = Inr m \<longrightarrow>
      (\<exists>before after. reg = before @ m # after \<and>
         mechname (template m) \<in> set adv \<and> test_of m conn \<and>
         (\<forall>e \<in> set before. mechname (template e) \<in> set adv \<and> test_of e conn \<longrightarrow>
            priority (template e) < priority (template m)) \<and>
         (\<forall>e \<in> set after. mechname (template e) \<in> set adv \<and> test_of e conn \<longrightarrow>
            priority (template e) \<le> priority (template m)))) \<and>
   (\<forall>m \<in> set reg. mechname (template m) \<in> set adv \<and> test_of m conn \<and>
      (\<forall>e \<in> set reg. mechname (template e) \<in> set adv \<and> test_of e conn \<and> e \<noteq> m \<longrightarrow>
         priority (template e) < priority (template m)) \<longrightarrow>
      select reg adv conn = Inr m)"
proof (intro conjI allI ballI impI)
  show "select reg adv conn = Inl NoCompatibleMechanism \<longleftrightarrow>
        (\<forall>e \<in> set reg. \<not> (mechname (template e) \<in> set adv \<and> test_of e conn))"
    using select_none_iff [of reg adv conn] by (simp add: compatible_def)
next
  show "select reg adv conn = Inl NoCompatibleMechanism \<or> (\<exists>m. select reg adv conn = Inr m)"
    by (cases "select reg adv conn") (auto intro: selection_error.exhaust)
next
  fix m
  assume "select reg adv conn = Inr m"
  from select_some [OF this]
  show "\<exists>before after. reg = before @ m # after \<and>
         mechname (template m) \<in> set adv \<and> test_of m conn \<and>
         (\<forall>e \<in> set before. mechname (template e) \<in> set adv \<and> test_of e conn \<longrightarrow>
            priority (template e) < priority (template m)) \<and>
         (\<forall>e \<in> set after. mechname (template e) \<in> set adv \<and> test_of e conn \<longrightarrow>
            priority (template e) \<le> priority (template m))"
    by (simp add: compatible_def)
next
  fix m
  assume m: "m \<in> set reg"
    and h: "mechname (template m) \<in> set adv \<and> test_of m conn \<and>
      (\<forall>e \<in> set reg. mechname (template e) \<in> set adv \<and> test_of e conn \<and> e \<noteq> m \<longrightarrow>
         priority (template e) < priority (template m))"
  from h have "compatible adv conn m" by (simp add: compatible_def)
  moreover from h have "\<forall>e \<in> set reg. compatible adv conn e \<longrightarrow> e \<noteq> m \<longrightarrow>
      priority (template e) < priority (template m)"
    by (simp add: compatible_def)
  ultimately show "select reg adv conn = Inr m"
    using m by (rule select_strictly_highest [rotated])
qed

text \<open>The definitions that evaluate the example registry.\<close>

lemmas example_defs =
  example_registry_def example_offer_def example_plain_def with_default_test_def
  constructor_def override_priority_def test_def

theorem select_highest_priority_witness:
  "select example_registry example_offer (Val 3) = Inr example_plain \<and>
   (\<exists>before after. example_registry = before @ example_plain # after \<and>
      mechname (template example_plain) \<in> set example_offer \<and> test_of example_plain (Val 3) \<and>
      (\<forall>e \<in> set before. mechname (template e) \<in> set example_offer \<and> test_of e (Val 3) \<longrightarrow>
         priority (template e) < priority (template example_plain)) \<and>
      (\<forall>e \<in> set after. mechname (template e) \<in> set example_offer \<and> test_of e (Val 3) \<longrightarrow>
         priority (template e) \<le> priority (template example_plain))) \<and>
   select [with_default_test (constructor ''EXTERNAL'' True 10)] [''PLAIN''] (Val (3::nat)) =
     Inl NoCompatibleMechanism \<and>
   select [example_plain, with_default_test (constructor ''ANONYMOUS'' False 20)]
     [''PLAIN'', ''ANONYMOUS''] (Val 3) = Inr example_plain"
proof -
  have s: "select example_registry example_offer (Val 3) = Inr example_plain"
    by (simp add: select_def offered_def applicable_def example_defs)
  have n: "\<forall>e \<in> set [with_default_test (constructor ''EXTERNAL'' True 10 :: nat SASLMechanism)].
             \<not> (mechname (template e) \<in> set [''PLAIN''] \<and> test_of e (Val 3))"
    by (simp add: with_default_test_def constructor_def)
  have t: "example_plain \<in> set [example_plain, with_default_test (constructor ''ANONYMOUS'' False 20)]"
    by simp
  have u: "mechname (template example_plain) \<in> set [''PLAIN'', ''ANONYMOUS''] \<and>
           test_of example_plain (Val 3) \<and>
           (\<forall>e \<in> set [example_plain, with_default_test (constructor ''ANONYMOUS'' False 20)].
              mechname (template e) \<in> set [''PLAIN'', ''ANONYMOUS''] \<and> test_of e (Val 3) \<and>
              e \<noteq> example_plain \<longrightarrow> priority (template e) < priority (template example_plain))"
    by (simp add: example_defs)
  note a = select_highest_priority [of example_registry example_offer "Val 3"]
  note b = select_highest_priority
    [of "[with_default_test (constructor ''EXTERNAL'' True 10)]" "[''PLAIN'']" "Val (3::nat)"]
  note c = select_highest_priority
    [of "[example_plain, with_default_test (constructor ''ANONYMOUS'' False 20)]"
        "[''PLAIN'', ''ANONYMOUS'']" "Val 3"]
  from a s have "\<exists>before after. example_registry = before @ example_plain # after \<and>
      mechname (template example_plain) \<in> set example_offer \<and> test_of example_plain (Val 3) \<and>
      (\<forall>e \<in> set before. mechname (template e) \<in> set example_offer \<and> test_of e (Val 3) \<longrightarrow>
         priority (template e) < priority (template example_plain)) \<and>
      (\<forall>e \<in> set after. mechname (template e) \<in> set example_offer \<and> test_of e (Val 3) \<longrightarrow>
         priority (template e) \<le> priority (template example_plain))"
    by blast
  moreover from b n have
    "select [with_default_test (constructor ''EXTERNAL'' True 10)] [''PLAIN''] (Val (3::nat)) =
       Inl NoCompatibleMechanism"
    by blast
  moreover from c t u have
    "select [example_plain, with_default_test (constructor ''ANONYMOUS'' False 20)]
       [''PLAIN'', ''ANONYMOUS''] (Val 3) = Inr example_plain"
    by blast
  ultimately show ?thesis using s by blast
qed

text \<open>
  C7: in the spec's order of preference the variants have the default priorities
  72, 71, 70, 60, 50, 40, 30, 20 and 10, a strictly descending sequence. Overriding
  the priority of a mechanism changes its \<open>priority\<close> field and no other field, and
  the selector, unchanged, follows the overridden value: a registered template that
  is advertised and passes its \<open>test\<close> is the one selected once its priority is
  overridden to a value above the priorities of the other such templates.
\<close>

theorem default_priorities_descending:
  "map default_priority variants_by_preference = [72, 71, 70, 60, 50, 40, 30, 20, 10] \<and>
   map variant_name variants_by_preference =
     [''SCRAM-SHA-512'', ''SCRAM-SHA-384'', ''SCRAM-SHA-256'', ''SCRAM-SHA-1'', ''PLAIN'',
      ''OAUTHBEARER'', ''X-OAUTH2'', ''ANONYMOUS'', ''EXTERNAL''] \<and>
   sorted_wrt (\<lambda>p q. q < p) (map default_priority variants_by_preference) \<and>
   priority (override_priority this p) = p \<and>
   mechname (override_priority this p) = mechname this \<and>
   isClientFirst (override_priority this p) = isClientFirst this \<and>
   connection (override_priority this p) = connection this \<and>
   (mechname (template e) \<in> set adv \<and> test_of e conn \<and>
    (\<forall>x \<in> set (before @ after). mechname (template x) \<in> set adv \<and> test_of x conn \<longrightarrow>
       priority (template x) < q) \<longrightarrow>
    select (before @ e\<lparr>template := override_priority (template e) q\<rparr> # after) adv conn =
      Inr (e\<lparr>template := override_priority (template e) q\<rparr>))"
proof (intro conjI impI)
  show "map default_priority variants_by_preference = [72, 71, 70, 60, 50, 40, 30, 20, 10]"
    by (simp add: variants_by_preference_def)
  show "map variant_name variants_by_preference =
     [''SCRAM-SHA-512'', ''SCRAM-SHA-384'', ''SCRAM-SHA-256'', ''SCRAM-SHA-1'', ''PLAIN'',
      ''OAUTHBEARER'', ''X-OAUTH2'', ''ANONYMOUS'', ''EXTERNAL'']"
    by (simp add: variants_by_preference_def)
  show "sorted_wrt (\<lambda>p q. q < p) (map default_priority variants_by_preference)"
    by (simp add: variants_by_preference_def)
  show "priority (override_priority this p) = p"
    and "mechname (override_priority this p) = mechname this"
    and "isClientFirst (override_priority this p) = isClientFirst this"
    and "connection (override_priority this p) = connection this"
    by (simp_all add: override_priority_def)
next
  let ?m = "e\<lparr>template := override_priority (template e) q\<rparr>"
  let ?reg = "before @ ?m # after"
  assume h: "mechname (template e) \<in> set adv \<and> test_of e conn \<and>
    (\<forall>x \<in> set (before @ after). mechname (template x) \<in> set adv \<and> test_of x conn \<longrightarrow>
       priority (template x) < q)"
  have m: "?m \<in> set ?reg" by simp
  from h have c: "compatible adv conn ?m"
    by (simp add: compatible_def override_priority_def)
  have pm: "priority (template ?m) = q" by (simp add: override_priority_def)
  have "\<forall>x \<in> set ?reg. compatible adv conn x \<longrightarrow> x \<noteq> ?m \<longrightarrow>
          priority (template x) < priority (template ?m)"
  proof (intro ballI impI)
    fix x
    assume "x \<in> set ?reg" and cx: "compatible adv conn x" and "x \<noteq> ?m"
    then have "x \<in> set (before @ after)" by auto
    with h cx have "priority (template x) < q" by (simp add: compatible_def)
    with pm show "priority (template x) < priority (template ?m)" by simp
  qed
  with m c show "select ?reg adv conn = Inr ?m" by (rule select_strictly_highest)
qed

theorem default_priorities_descending_witness:
  "mechname (template example_plain) \<in> set [''PLAIN'', ''SCRAM-SHA-512''] \<and>
   test_of example_plain (Val 3) \<and>
   select
     ([with_default_test (constructor ''SCRAM-SHA-512'' True 72)] @ example_plain #
      [with_default_test (constructor ''ANONYMOUS'' False 20)])
     [''PLAIN'', ''SCRAM-SHA-512''] (Val 3) =
     Inr (with_default_test (constructor ''SCRAM-SHA-512'' True 72)) \<and>
   select
     ([with_default_test (constructor ''SCRAM-SHA-512'' True 72)] @
      example_plain\<lparr>template := override_priority (template example_plain) 100\<rparr> #
      [with_default_test (constructor ''ANONYMOUS'' False 20)])
     [''PLAIN'', ''SCRAM-SHA-512''] (Val 3) =
     Inr (example_plain\<lparr>template := override_priority (template example_plain) 100\<rparr>)"
proof -
  have h: "mechname (template example_plain) \<in> set [''PLAIN'', ''SCRAM-SHA-512''] \<and>
    test_of example_plain (Val 3) \<and>
    (\<forall>x \<in> set ([with_default_test (constructor ''SCRAM-SHA-512'' True 72)] @
                 [with_default_test (constructor ''ANONYMOUS'' False 20)]).
       mechname (template x) \<in> set [''PLAIN'', ''SCRAM-SHA-512''] \<and> test_of x (Val 3) \<longrightarrow>
       priority (template x) < 100)"
    by (simp add: example_defs)
  have d: "select
     ([with_default_test (constructor ''SCRAM-SHA-512'' True 72)] @ example_plain #
      [with_default_test (constructor ''ANONYMOUS'' False 20)])
     [''PLAIN'', ''SCRAM-SHA-512''] (Val 3) =
     Inr (with_default_test (constructor ''SCRAM-SHA-512'' True 72))"
    by (simp add: select_def offered_def applicable_def example_defs)
  from h default_priorities_descending
    [where e = example_plain and adv = "[''PLAIN'', ''SCRAM-SHA-512'']" and conn = "Val 3"
       and before = "[with_default_test (constructor ''SCRAM-SHA-512'' True 72)]"
       and after = "[with_default_test (constructor ''ANONYMOUS'' False 20)]" and q = 100]
  have "select
     ([with_default_test (constructor ''SCRAM-SHA-512'' True 72)] @
      example_plain\<lparr>template := override_priority (template example_plain) 100\<rparr> #
      [with_default_test (constructor ''ANONYMOUS'' False 20)])
     [''PLAIN'', ''SCRAM-SHA-512''] (Val 3) =
     Inr (example_plain\<lparr>template := override_priority (template example_plain) 100\<rparr>)"
    by blast
  with h d show ?thesis by blast
qed

end
